theory Spec2Isabelle
  imports Main
begin

section \<open>Data model (the type declarations, src/unnamed/part_003)\<close>

text \<open>
  The interfaces of the TypeScript source become records, field for field. A JavaScript
  string is modelled as a \<^typ>\<open>string\<close>: the list of its code units, for code units
  below 256. An optional field (\<^verbatim>\<open>conjugations?\<close>, \<^verbatim>\<open>imageUrl?\<close>) is an
  \<^typ>\<open>'a option\<close>, \<^const>\<open>None\<close> standing for \<^verbatim>\<open>undefined\<close>.

  \<^verbatim>\<open>lookupWord\<close> is declared to return
  \<^verbatim>\<open>Omit<DictionaryResult, 'imageUrl' | 'timestamp' | 'sourceLang' | 'targetLang'>\<close>;
  that type is the record \<open>TextData\<close>, which \<open>DictionaryResult\<close> extends by the four
  omitted fields, as \<open>SavedItem\<close> extends \<open>DictionaryResult\<close> by the identifier.
  The fields \<^verbatim>\<open>id\<close> of SavedItem and \<^verbatim>\<open>text\<close> of ChatMessage are written
  \<open>id_str\<close> and \<open>text_str\<close> (\<open>id\<close> is a constant of HOL, \<open>text\<close> a keyword), and the
  state variable \<^verbatim>\<open>targetLang\<close> of the App component is written \<open>targetLang_ui\<close>,
  apart from the field \<open>targetLang\<close> of a result.
\<close>

record Language =
  code :: string
  name :: string
  flag :: string

record ExampleSentence =
  original :: string
  translated :: string

record ConjugationForm =
  pronoun :: string
  form :: string

record Conjugation =
  infinitive :: string
  tenseName :: string
  forms :: "ConjugationForm list"

record TextData =
  word :: string
  explanation :: string
  examples :: "ExampleSentence list"
  friendlyNote :: string
  conjugations :: "Conjugation option"

record DictionaryResult = TextData +
  imageUrl :: "string option"
  timestamp :: int
  sourceLang :: string
  targetLang :: string

record SavedItem = DictionaryResult +
  id_str :: string

datatype Role = User | Model

record ChatMessage =
  role :: Role
  text_str :: string

datatype AppMode = SEARCH | NOTEBOOK | FLASHCARDS

section \<open>Strings\<close>

text \<open>
  \<^verbatim>\<open>String.prototype.trim\<close> removes white space and line terminators from both
  ends; below 256 these are the code units 9 to 13, 32 and 160.
  \<^verbatim>\<open>String.prototype.includes\<close> is the substring test, and
  \<^verbatim>\<open>Array.prototype.join\<close> puts the separator between the elements.
\<close>

definition is_js_space :: "char \<Rightarrow> bool" where
  "is_js_space c =
     (c \<in> set [CHR 0x09, CHR 0x0A, CHR 0x0B, CHR 0x0C, CHR 0x0D, CHR 0x20, CHR 0xA0])"

definition trim :: "string \<Rightarrow> string" where
  "trim s = rev (dropWhile is_js_space (rev (dropWhile is_js_space s)))"

fun includes_str :: "string \<Rightarrow> string \<Rightarrow> bool" where
  "includes_str [] p = (p = [])"
| "includes_str (c # cs) p = (take (length p) (c # cs) = p \<or> includes_str cs p)"

fun join :: "string \<Rightarrow> string list \<Rightarrow> string" where
  "join sep [] = []"
| "join sep [x] = x"
| "join sep (x # y # ys) = x @ sep @ join sep (y # ys)"

section \<open>JSON.parse\<close>

text \<open>
  \<^verbatim>\<open>JSON.parse\<close> is a built-in of the platform, not code of the repository. It is
  embedded from the grammar it implements (ECMA-404): a lexer into tokens and a pushdown
  recogniser over them that builds the value. It throws a \<^verbatim>\<open>SyntaxError\<close> exactly
  on the texts outside the grammar. A number is kept as its lexeme and a string as the
  characters between its quotes (escape sequences as written), so that no floating-point
  or Unicode conversion enters the model.
\<close>

datatype json = JNull | JBool bool | JNumber string | JString string
  | JArray "json list" | JObject "(string \<times> json) list"

datatype token = TLBrace | TRBrace | TLBracket | TRBracket | TColon | TComma
  | TString string | TNumber string | TTrue | TFalse | TNull

datatype parse_error = SyntaxError

definition is_json_ws :: "char \<Rightarrow> bool" where
  "is_json_ws c = (c \<in> set [CHR 0x20, CHR 0x09, CHR 0x0A, CHR 0x0D])"

definition is_digit :: "char \<Rightarrow> bool" where
  "is_digit c = (c \<in> set ''0123456789'')"

definition is_hex :: "char \<Rightarrow> bool" where
  "is_hex c = (c \<in> set ''0123456789abcdefABCDEF'')"

definition is_number_char :: "char \<Rightarrow> bool" where
  "is_number_char c = (c \<in> set ''0123456789+-.eE'')"

text \<open>The body of a string literal, read after its opening quote (code unit 0x22), up to
  the closing quote: no raw control character, and after a backslash (0x5C) one of the
  eight single-character escapes, or \<^verbatim>\<open>u\<close> and four hexadecimal digits.\<close>

fun lex_string :: "string \<Rightarrow> (string \<times> string) option" where
  "lex_string [] = None"
| "lex_string (c # cs) =
     (if c = CHR 0x22 then Some ([], cs)
      else if c = CHR 0x5C then
        (case cs of
           [] \<Rightarrow> None
         | e # cs' \<Rightarrow>
             if e \<in> set [CHR 0x22, CHR 0x5C, CHR ''/'', CHR ''b'', CHR ''f'', CHR ''n'',
                          CHR ''r'', CHR ''t'']
             then map_option (\<lambda>(body, rest). (c # e # body, rest)) (lex_string cs')
             else if e = CHR ''u'' \<and> 4 \<le> length cs' \<and> list_all is_hex (take 4 cs')
             then map_option (\<lambda>(body, rest). (c # e # take 4 cs' @ body, rest))
                    (lex_string (drop 4 cs'))
             else None)
      else if of_char c < (0x20 :: nat) then None
      else map_option (\<lambda>(body, rest). (c # body, rest)) (lex_string cs))"

text \<open>The number grammar: an optional minus, then \<open>0\<close> or a digit sequence without
  leading zero, an optional fraction, an optional exponent.\<close>

definition valid_exp :: "string \<Rightarrow> bool" where
  "valid_exp s =
     (case s of
        [] \<Rightarrow> True
      | c # r \<Rightarrow>
          (c = CHR ''e'' \<or> c = CHR ''E'') \<and>
          (let ds = (case r of
                       [] \<Rightarrow> []
                     | g # r' \<Rightarrow> if g = CHR ''+'' \<or> g = CHR ''-'' then r' else r)
           in ds \<noteq> [] \<and> list_all is_digit ds))"

definition valid_frac :: "string \<Rightarrow> bool" where
  "valid_frac s =
     (case s of
        [] \<Rightarrow> True
      | c # r \<Rightarrow>
          if c = CHR ''.''
          then takeWhile is_digit r \<noteq> [] \<and> valid_exp (dropWhile is_digit r)
          else valid_exp s)"

definition valid_number :: "string \<Rightarrow> bool" where
  "valid_number s =
     (case (case s of [] \<Rightarrow> [] | c # r \<Rightarrow> if c = CHR ''-'' then r else s) of
        [] \<Rightarrow> False
      | d # r \<Rightarrow>
          if d = CHR ''0'' then valid_frac r
          else is_digit d \<and> valid_frac (dropWhile is_digit r))"

lemma lex_string_length: "lex_string cs = Some (body, rest) \<Longrightarrow> length rest \<le> length cs"
proof (induction cs arbitrary: body rest rule: lex_string.induct)
  case 1
  then show ?case by simp
next
  case (2 c cs)
  then show ?case
    by (fastforce split: if_splits list.splits)
qed

function lex :: "string \<Rightarrow> token list option" where
  "lex [] = Some []"
| "lex (c # cs) =
     (if is_json_ws c then lex cs
      else if c = CHR ''{'' then map_option ((#) TLBrace) (lex cs)
      else if c = CHR ''}'' then map_option ((#) TRBrace) (lex cs)
      else if c = CHR ''['' then map_option ((#) TLBracket) (lex cs)
      else if c = CHR '']'' then map_option ((#) TRBracket) (lex cs)
      else if c = CHR '':'' then map_option ((#) TColon) (lex cs)
      else if c = CHR '','' then map_option ((#) TComma) (lex cs)
      else if c = CHR 0x22 then
        (case lex_string cs of
           None \<Rightarrow> None
         | Some (body, rest) \<Rightarrow> map_option ((#) (TString body)) (lex rest))
      else if is_number_char c then
        (if valid_number (takeWhile is_number_char (c # cs))
         then map_option ((#) (TNumber (takeWhile is_number_char (c # cs))))
                (lex (dropWhile is_number_char cs))
         else None)
      else if take 4 (c # cs) = ''true'' then map_option ((#) TTrue) (lex (drop 3 cs))
      else if take 5 (c # cs) = ''false'' then map_option ((#) TFalse) (lex (drop 4 cs))
      else if take 4 (c # cs) = ''null'' then map_option ((#) TNull) (lex (drop 3 cs))
      else None)"
  by pat_completeness auto
termination
  by (relation "measure length")
    (auto dest: lex_string_length intro: le_imp_less_Suc order_trans [OF length_dropWhile_le])

text \<open>The recogniser keeps a stack of the arrays and objects that are open, each with the
  elements or members read so far (latest first), and the state says what may come next.\<close>

datatype frame = FArr "json list" | FObj "(string \<times> json) list"
  | FKey "(string \<times> json) list" string

datatype pstate = PValue | PArrStart | PObjStart | PKey | PColon | PAfter | PDone json

definition complete :: "json \<Rightarrow> frame list \<Rightarrow> (pstate \<times> frame list) option" where
  "complete v stack =
     (case stack of
        [] \<Rightarrow> Some (PDone v, [])
      | FArr es # st \<Rightarrow> Some (PAfter, FArr (v # es) # st)
      | FKey ms k # st \<Rightarrow> Some (PAfter, FObj ((k, v) # ms) # st)
      | FObj ms # st \<Rightarrow> None)"

definition start_value :: "token \<Rightarrow> frame list \<Rightarrow> (pstate \<times> frame list) option" where
  "start_value t stack =
     (case t of
        TLBracket \<Rightarrow> Some (PArrStart, FArr [] # stack)
      | TLBrace \<Rightarrow> Some (PObjStart, FObj [] # stack)
      | TString s \<Rightarrow> complete (JString s) stack
      | TNumber n \<Rightarrow> complete (JNumber n) stack
      | TTrue \<Rightarrow> complete (JBool True) stack
      | TFalse \<Rightarrow> complete (JBool False) stack
      | TNull \<Rightarrow> complete JNull stack
      | _ \<Rightarrow> None)"

definition close_array :: "frame list \<Rightarrow> (pstate \<times> frame list) option" where
  "close_array stack =
     (case stack of FArr es # st \<Rightarrow> complete (JArray (rev es)) st | _ \<Rightarrow> None)"

definition close_object :: "frame list \<Rightarrow> (pstate \<times> frame list) option" where
  "close_object stack =
     (case stack of FObj ms # st \<Rightarrow> complete (JObject (rev ms)) st | _ \<Rightarrow> None)"

definition read_key :: "token \<Rightarrow> frame list \<Rightarrow> (pstate \<times> frame list) option" where
  "read_key t stack =
     (case (t, stack) of
        (TString k, FObj ms # st) \<Rightarrow> Some (PColon, FKey ms k # st)
      | _ \<Rightarrow> None)"

fun step :: "pstate \<Rightarrow> frame list \<Rightarrow> token \<Rightarrow> (pstate \<times> frame list) option" where
  "step PValue stack t = start_value t stack"
| "step PArrStart stack t = (if t = TRBracket then close_array stack else start_value t stack)"
| "step PObjStart stack t = (if t = TRBrace then close_object stack else read_key t stack)"
| "step PKey stack t = read_key t stack"
| "step PColon stack t = (if t = TColon then Some (PValue, stack) else None)"
| "step PAfter stack t =
     (case stack of
        FArr es # st \<Rightarrow>
          if t = TComma then Some (PValue, stack)
          else if t = TRBracket then close_array stack else None
      | FObj ms # st \<Rightarrow>
          if t = TComma then Some (PKey, stack)
          else if t = TRBrace then close_object stack else None
      | _ \<Rightarrow> None)"
| "step (PDone v) stack t = None"

fun parse_tokens :: "pstate \<Rightarrow> frame list \<Rightarrow> token list \<Rightarrow> json option" where
  "parse_tokens st stack [] = (case st of PDone v \<Rightarrow> Some v | _ \<Rightarrow> None)"
| "parse_tokens st stack (t # ts) =
     (case step st stack t of
        None \<Rightarrow> None
      | Some (st', stack') \<Rightarrow> parse_tokens st' stack' ts)"

definition JSON_parse :: "string \<Rightarrow> parse_error + json" where
  "JSON_parse s =
     (case lex s of
        None \<Rightarrow> Inl SyntaxError
      | Some ts \<Rightarrow>
          (case parse_tokens PValue [] ts of None \<Rightarrow> Inl SyntaxError | Some v \<Rightarrow> Inr v))"

section \<open>Store construction (App.tsx, lines 21-24; src/unnamed/part_000, lines 23-31)\<close>

text \<open>
  \<^verbatim>\<open>
  const [settings, setSettings] = useState<AppSettings>(() => {
    const saved = localStorage.getItem('lingopop_settings');
    return saved ? JSON.parse(saved) : DEFAULT_SETTINGS;
  });
  const [savedItems, setSavedItems] = useState<SavedItem[]>(() => {
    const saved = localStorage.getItem('lingopop_saved');
    return saved ? JSON.parse(saved) : [];
  });
  \<close>
  The durable storage is a map from keys to strings; \<^verbatim>\<open>getItem\<close> of an absent key is
  \<^verbatim>\<open>null\<close>, here \<^const>\<open>None\<close>. \<^verbatim>\<open>null\<close> and the empty string are the falsy
  values of \<^verbatim>\<open>saved\<close>. An initializer returns the value that becomes the state, as
  the runtime has it (the type annotation is not checked), or throws what
  \<^verbatim>\<open>JSON.parse\<close> throws: there is no handler around the call.
  \<^verbatim>\<open>DEFAULT_SETTINGS\<close> is the object of constants.ts,
  \<^verbatim>\<open>{ apiKey: '', textModel: 'gemini-2.5-flash' }\<close>, and \<^verbatim>\<open>[]\<close> the empty
  array, both as values of the same kind as a parse returns.
\<close>

type_synonym localStorage = "string \<Rightarrow> string option"

definition getItem :: "localStorage \<Rightarrow> string \<Rightarrow> string option" where
  "getItem storage key = storage key"

definition DEFAULT_SETTINGS :: json where
  "DEFAULT_SETTINGS =
     JObject [(''apiKey'', JString []), (''textModel'', JString ''gemini-2.5-flash'')]"

definition settings_initializer :: "localStorage \<Rightarrow> parse_error + json" where
  "settings_initializer storage =
     (case getItem storage ''lingopop_settings'' of
        None \<Rightarrow> Inr DEFAULT_SETTINGS
      | Some saved \<Rightarrow> if saved \<noteq> [] then JSON_parse saved else Inr DEFAULT_SETTINGS)"

definition savedItems_initializer :: "localStorage \<Rightarrow> parse_error + json" where
  "savedItems_initializer storage =
     (case getItem storage ''lingopop_saved'' of
        None \<Rightarrow> Inr (JArray [])
      | Some saved \<Rightarrow> if saved \<noteq> [] then JSON_parse saved else Inr (JArray []))"

section \<open>Notebook store (App.tsx: saveItem, deleteItem)\<close>

text \<open>
  \<^verbatim>\<open>
  const saveItem = (item: DictionaryResult) => {
    if (savedItems.some(i => i.word === item.word)) return;
    const newItem: SavedItem = { ...item, id: crypto.randomUUID() };
    setSavedItems(prev => [newItem, ...prev]);
  };
  const deleteItem = (id: string) => {
    setSavedItems(prev => prev.filter(i => i.id !== id));
  };
  \<close>
  The notebook is the list \<^verbatim>\<open>savedItems\<close>, passed in as \<open>prev\<close> and returned. The
  identifier that \<^verbatim>\<open>crypto.randomUUID()\<close> draws is an input of the model
  (\<open>uuid\<close>). Each call is made on the committed state: the list the handler tests and
  the list the updater receives are the same.
\<close>

definition newItem :: "string \<Rightarrow> DictionaryResult \<Rightarrow> SavedItem" where
  "newItem uuid item =
     \<lparr>word = word item, explanation = explanation item, examples = examples item,
      friendlyNote = friendlyNote item, conjugations = conjugations item,
      imageUrl = imageUrl item, timestamp = timestamp item,
      sourceLang = sourceLang item, targetLang = targetLang item, id_str = uuid\<rparr>"

definition saveItem :: "string \<Rightarrow> DictionaryResult \<Rightarrow> SavedItem list \<Rightarrow> SavedItem list" where
  "saveItem uuid item prev =
     (if list_ex (\<lambda>i. word i = word item) prev then prev else newItem uuid item # prev)"

definition deleteItem :: "string \<Rightarrow> SavedItem list \<Rightarrow> SavedItem list" where
  "deleteItem ident prev = filter (\<lambda>i. id_str i \<noteq> ident) prev"

text \<open>The entries of a notebook filed under a headword, and the invariant of the data
  model: at most one entry per headword.\<close>

definition entries_for :: "string \<Rightarrow> SavedItem list \<Rightarrow> SavedItem list" where
  "entries_for w prev = filter (\<lambda>i. word i = w) prev"

definition notebook_inv :: "SavedItem list \<Rightarrow> bool" where
  "notebook_inv prev = distinct (map word prev)"

text \<open>The operations the user interface offers on the notebook, for runs of several of
  them: the bookmark button of a result and the bin of a saved item.\<close>

datatype notebook_op = Save string DictionaryResult | Delete string

fun apply_op :: "SavedItem list \<Rightarrow> notebook_op \<Rightarrow> SavedItem list" where
  "apply_op prev (Save uuid item) = saveItem uuid item prev"
| "apply_op prev (Delete ident) = deleteItem ident prev"

section \<open>Collaborators (services/geminiService.ts)\<close>

text \<open>
  The generative service is outside the program: each of its calls is an entry of the
  environment, a function from what the call is given to what awaiting it yields, a
  value or the thrown error (\<open>Inl\<close>). \<open>getClient\<close> is what
  \<^verbatim>\<open>new GoogleGenAI({ apiKey: process.env.API_KEY })\<close> throws, if it throws; the key
  is fixed when the program is built, so every call of \<^verbatim>\<open>getClient()\<close> fares the
  same. Of a thrown error the program reads only \<^verbatim>\<open>error.message\<close>.
\<close>

datatype thrown = Thrown (message: "string option")

record Blob =
  data :: "string option"

record Part =
  inlineData :: "Blob option"

record Content =
  parts :: "Part list option"

record Candidate =
  content :: "Content option"

record GenerateContentResponse =
  candidates :: "Candidate list option"

record env =
  getClient :: "thrown option"
  generate_definition :: "string \<Rightarrow> string \<Rightarrow> string \<Rightarrow> thrown + TextData"
  generate_image :: "string \<Rightarrow> thrown + GenerateContentResponse"
  generate_story :: "string \<Rightarrow> thrown + string option"
  chat_sendMessage :: "ChatMessage list \<Rightarrow> string \<Rightarrow> thrown + string"
  Date_now :: int

text \<open>
  \<^verbatim>\<open>lookupWord(text, sourceLang, targetLang)\<close> creates the client, builds a prompt
  from its three arguments, awaits \<^verbatim>\<open>generateContent\<close> and returns
  \<^verbatim>\<open>JSON.parse(response.text || "{}")\<close> at its declared type. The entry
  \<open>generate_definition\<close> stands for the request and the parse together, as a function
  of the three arguments.
\<close>

definition lookupWord :: "env \<Rightarrow> string \<Rightarrow> string \<Rightarrow> string \<Rightarrow> thrown + TextData" where
  "lookupWord e txt src tgt =
     (case getClient e of
        Some err \<Rightarrow> Inl err
      | None \<Rightarrow> generate_definition e txt src tgt)"

text \<open>
  \<^verbatim>\<open>
  export const generateConceptImage = async (word: string): Promise<string | undefined> => {
    const ai = getClient();
    try {
      const response = await ai.models.generateContent({
        model: 'gemini-2.5-flash-image',
        contents: `Create a simple, ... representing the concept: "${word}". ...`,
        config: {}
      });
      for (const part of response.candidates?.[0]?.content?.parts || []) {
        if (part.inlineData) {
          return `data:image/png;base64,${part.inlineData.data}`;
        }
      }
    } catch (e) {
      console.warn("Image generation failed", e);
      return undefined;
    }
    return undefined;
  };
  \<close>
  The client is created before the \<^verbatim>\<open>try\<close>; everything after it is inside.
\<close>

definition image_prompt :: "string \<Rightarrow> string" where
  "image_prompt w =
     ''Create a simple, fun, vibrant, minimalist vector-style illustration representing the concept: ''
     @ [CHR 0x22] @ w @ [CHR 0x22]
     @ ''. Bright colors, clean lines, flat design, white background.''"

definition response_parts :: "GenerateContentResponse \<Rightarrow> Part list" where
  "response_parts response =
     (case candidates response of
        None \<Rightarrow> []
      | Some [] \<Rightarrow> []
      | Some (c # _) \<Rightarrow>
          (case content c of
             None \<Rightarrow> []
           | Some ct \<Rightarrow> (case parts ct of None \<Rightarrow> [] | Some ps \<Rightarrow> ps)))"

fun first_inlineData :: "Part list \<Rightarrow> string option" where
  "first_inlineData [] = None"
| "first_inlineData (part # rest) =
     (case inlineData part of
        Some blob \<Rightarrow>
          Some (''data:image/png;base64,''
                @ (case data blob of Some d \<Rightarrow> d | None \<Rightarrow> ''undefined''))
      | None \<Rightarrow> first_inlineData rest)"

definition generateConceptImage :: "env \<Rightarrow> string \<Rightarrow> thrown + string option" where
  "generateConceptImage e w =
     (case getClient e of
        Some err \<Rightarrow> Inl err
      | None \<Rightarrow>
          (case generate_image e (image_prompt w) of
             Inl err \<Rightarrow> Inr None
           | Inr response \<Rightarrow> Inr (first_inlineData (response_parts response))))"

text \<open>
  \<^verbatim>\<open>
  export const weaveStory = async (items: SavedItem[], nativeLang: string): Promise<string> => {
    const ai = getClient();
    const words = items.map(i => i.word).join(", ");
    const prompt = `
      Write a short, funny, and coherent story (max 150 words) that incorporates the following words: ${words}.
      The story should be written in the target language of the words, but provide a full translation in ${nativeLang} at the end.
      Highlight the keywords in the story if possible.
    `;
    const response = await ai.models.generateContent({ model: 'gemini-2.5-flash', contents: prompt });
    return response.text || "Could not generate story.";
  };
  \<close>
  The model returns, beside the outcome, the list of the prompts that were sent to the
  story collaborator: empty when it was not reached.
\<close>

definition story_prompt :: "string list \<Rightarrow> string \<Rightarrow> string" where
  "story_prompt headwords native =
     [CHR 0x0A]
     @ ''    Write a short, funny, and coherent story (max 150 words) that incorporates the following words: ''
     @ join '', '' headwords @ ''.'' @ [CHR 0x0A]
     @ ''    The story should be written in the target language of the words, but provide a full translation in ''
     @ native @ '' at the end.'' @ [CHR 0x0A]
     @ ''    Highlight the keywords in the story if possible.'' @ [CHR 0x0A]
     @ ''  ''"

definition weaveStory :: "env \<Rightarrow> SavedItem list \<Rightarrow> string \<Rightarrow> (thrown + string) \<times> string list" where
  "weaveStory e items native =
     (case getClient e of
        Some err \<Rightarrow> (Inl err, [])
      | None \<Rightarrow>
          (let prompt = story_prompt (map word items) native in
           (case generate_story e prompt of
              Inl err \<Rightarrow> Inl err
            | Inr txt \<Rightarrow>
                Inr (case txt of
                       None \<Rightarrow> ''Could not generate story.''
                     | Some t \<Rightarrow> if t \<noteq> [] then t else ''Could not generate story.''),
            [prompt])))"

text \<open>
  \<^verbatim>\<open>
  export const getChatResponse = async (history, newMessage, currentContext, targetLang, nativeLang) => {
    const ai = getClient();
    const chat = ai.chats.create({
      model: 'gemini-2.5-flash',
      history: [
        { role: 'user', parts: [{ text: `System: You are a helpful language tutor. ...` }] },
        { role: 'model', parts: [{ text: "Understood! I'm ready to help you explore this word further." }] },
        ...history.map(h => ({ role: h.role, parts: [{ text: h.text }] }))
      ]
    });
    const response = await chat.sendMessage({ message: newMessage });
    return response.text;
  };
  \<close>
\<close>

definition priming :: "DictionaryResult \<Rightarrow> string \<Rightarrow> string \<Rightarrow> ChatMessage list" where
  "priming currentContext tgt native =
     [\<lparr>role = User,
       text_str =
         ''System: You are a helpful language tutor. We are discussing the word/phrase ''
         @ [CHR 0x22] @ word currentContext @ [CHR 0x22]
         @ '' (Target: '' @ tgt @ '', Native: '' @ native @ ''). The definition provided was: ''
         @ [CHR 0x22] @ explanation currentContext @ [CHR 0x22]
         @ ''. Keep answers brief and helpful.''\<rparr>,
      \<lparr>role = Model,
       text_str = ''Understood! I'' @ [CHR 0x27] @ ''m ready to help you explore this word further.''\<rparr>]"

definition getChatResponse ::
  "env \<Rightarrow> ChatMessage list \<Rightarrow> string \<Rightarrow> DictionaryResult \<Rightarrow> string \<Rightarrow> string \<Rightarrow> thrown + string" where
  "getChatResponse e history newMessage currentContext tgt native =
     (case getClient e of
        Some err \<Rightarrow> Inl err
      | None \<Rightarrow> chat_sendMessage e (priming currentContext tgt native @ history) newMessage)"

section \<open>Lookup (App.tsx and src/unnamed/part_000: handleSearch, reviewItem and the setters)\<close>

text \<open>
  The state of the App component that the search path reads and writes. A handler runs to
  its first \<^verbatim>\<open>await\<close> in one piece; what follows the \<^verbatim>\<open>await\<close> runs later,
  on the state as it is then, with the constants the handler bound before. So
  \<^verbatim>\<open>handleSearch\<close> is two functions: \<open>handleSearch_begin\<close>, up to the
  \<^verbatim>\<open>await Promise.all\<close>, which returns the new state and the values bound
  (\<open>request\<close>), or \<^const>\<open>None\<close> when the handler returns at once; and
  \<open>handleSearch_resume\<close>, the rest. Between the two the user interface handles other
  events (\<open>ui_event\<close>).
  \<^verbatim>\<open>
  const handleSearch = async (e: React.FormEvent) => {
    e.preventDefault();
    if (!query.trim()) return;
    setLoading(true);
    setMode(AppMode.SEARCH);
    setCurrentResult(null);
    try {
      const reqNative = nativeLang.name;
      const reqTarget = targetLang.name;
      const textPromise = lookupWord(query, reqNative, reqTarget);
      const imagePromise = generateConceptImage(query);
      const [textData, imageUrl] = await Promise.all([textPromise, imagePromise]);
      setCurrentResult({
        ...textData, imageUrl, timestamp: Date.now(), sourceLang: reqNative, targetLang: reqTarget
      });
    } catch (error: any) {
      console.error("Search failed", error);
      let errorMsg = "Oops! The AI got a bit confused. Try again?";
      if (error.message?.includes("API Key")) {
        errorMsg = "API Key Error: Please check your settings.";
        setShowSettings(true);
      }
      alert(errorMsg);
    } finally {
      setLoading(false);
    }
  };
  \<close>
  This is the handler of src/unnamed/part_000, the revision of App.tsx with a settings
  dialog; in App.tsx itself the \<^verbatim>\<open>catch\<close> block is
  \<^verbatim>\<open>console.error("Search failed", error); alert("Oops! The AI got a bit confused. Try again?");\<close>
  and the rest of the handler is the same. \<open>revision\<close> selects the block.
\<close>

record app_state =
  hasStarted :: bool
  nativeLang :: Language
  targetLang_ui :: Language
  mode :: AppMode
  query :: string
  loading :: bool
  currentResult :: "DictionaryResult option"
  showSettings :: bool

text \<open>
  The events are the other handlers of the component, each a sequence of state setters:
  \<open>Start\<close> is \<^verbatim>\<open>onStart\<close> of the welcome screen; \<open>SetNativeLang\<close> and
  \<open>SetTargetLang\<close> are the two language selects (which offer the entries of
  \<^verbatim>\<open>LANGUAGES\<close>; the model admits any language); \<open>SetQuery\<close> is typing in the
  search box; \<open>SetMode\<close> is the notebook and flashcard buttons; \<open>LogoClick\<close> is
  \<^verbatim>\<open>setMode(AppMode.SEARCH); setCurrentResult(null)\<close>; \<open>ReviewItem\<close> is
  \<^verbatim>\<open>reviewItem\<close>, \<^verbatim>\<open>setCurrentResult(item); setMode(AppMode.SEARCH)\<close>, with
  the item at the type of the state variable; \<open>SetShowSettings\<close> opens and closes the
  settings dialog.
\<close>

datatype ui_event =
    Start
  | SetNativeLang Language
  | SetTargetLang Language
  | SetQuery string
  | SetMode AppMode
  | LogoClick
  | ReviewItem SavedItem
  | SetShowSettings bool

definition reviewItem :: "SavedItem \<Rightarrow> app_state \<Rightarrow> app_state" where
  "reviewItem item s = s\<lparr>currentResult := Some (DictionaryResult.truncate item), mode := SEARCH\<rparr>"

fun handle_event :: "app_state \<Rightarrow> ui_event \<Rightarrow> app_state" where
  "handle_event s Start = s\<lparr>hasStarted := True\<rparr>"
| "handle_event s (SetNativeLang l) = s\<lparr>nativeLang := l\<rparr>"
| "handle_event s (SetTargetLang l) = s\<lparr>targetLang_ui := l\<rparr>"
| "handle_event s (SetQuery q) = s\<lparr>query := q\<rparr>"
| "handle_event s (SetMode m) = s\<lparr>mode := m\<rparr>"
| "handle_event s LogoClick = s\<lparr>mode := SEARCH, currentResult := None\<rparr>"
| "handle_event s (ReviewItem item) = reviewItem item s"
| "handle_event s (SetShowSettings b) = s\<lparr>showSettings := b\<rparr>"

record request =
  reqQuery :: string
  reqNative :: string
  reqTarget :: string

datatype revision = App_tsx | App_with_settings

datatype outcome = EmptyQuery | Alerted string | Shown DictionaryResult

definition handleSearch_begin :: "app_state \<Rightarrow> (app_state \<times> request) option" where
  "handleSearch_begin s =
     (if trim (query s) = [] then None
      else Some (s\<lparr>loading := True, mode := SEARCH, currentResult := None\<rparr>,
                 \<lparr>reqQuery = query s, reqNative = name (nativeLang s),
                  reqTarget = name (targetLang_ui s)\<rparr>))"

definition Promise_all :: "thrown + 'a \<Rightarrow> thrown + 'b \<Rightarrow> thrown + 'a \<times> 'b" where
  "Promise_all p q =
     (case p of
        Inl err \<Rightarrow> Inl err
      | Inr a \<Rightarrow> (case q of Inl err \<Rightarrow> Inl err | Inr b \<Rightarrow> Inr (a, b)))"

definition search_try :: "env \<Rightarrow> request \<Rightarrow> thrown + DictionaryResult" where
  "search_try e req =
     (case Promise_all (lookupWord e (reqQuery req) (reqNative req) (reqTarget req))
             (generateConceptImage e (reqQuery req)) of
        Inl err \<Rightarrow> Inl err
      | Inr (textData, img) \<Rightarrow>
          Inr \<lparr>word = word textData, explanation = explanation textData,
               examples = examples textData, friendlyNote = friendlyNote textData,
               conjugations = conjugations textData,
               imageUrl = img, timestamp = Date_now e,
               sourceLang = reqNative req, targetLang = reqTarget req\<rparr>)"

definition search_catch :: "revision \<Rightarrow> thrown \<Rightarrow> app_state \<Rightarrow> app_state \<times> string" where
  "search_catch rv err s =
     (case rv of
        App_tsx \<Rightarrow> (s, ''Oops! The AI got a bit confused. Try again?'')
      | App_with_settings \<Rightarrow>
          (if (case message err of None \<Rightarrow> False | Some m \<Rightarrow> includes_str m ''API Key'')
           then (s\<lparr>showSettings := True\<rparr>, ''API Key Error: Please check your settings.'')
           else (s, ''Oops! The AI got a bit confused. Try again?'')))"

definition handleSearch_resume ::
  "revision \<Rightarrow> env \<Rightarrow> request \<Rightarrow> app_state \<Rightarrow> app_state \<times> outcome" where
  "handleSearch_resume rv e req s =
     (case search_try e req of
        Inr result \<Rightarrow> (s\<lparr>currentResult := Some result, loading := False\<rparr>, Shown result)
      | Inl err \<Rightarrow>
          (case search_catch rv err s of
             (s', errorMsg) \<Rightarrow> (s'\<lparr>loading := False\<rparr>, Alerted errorMsg)))"

text \<open>One lookup from the submit to the end of the handler, with the events \<open>evs\<close> handled
  while the two requests are awaited.\<close>

definition handleSearch ::
  "revision \<Rightarrow> env \<Rightarrow> ui_event list \<Rightarrow> app_state \<Rightarrow> app_state \<times> outcome" where
  "handleSearch rv e evs s =
     (case handleSearch_begin s of
        None \<Rightarrow> (s, EmptyQuery)
      | Some (s1, req) \<Rightarrow> handleSearch_resume rv e req (foldl handle_event s1 evs))"

section \<open>Chat (the ResultCard component, src/unnamed/part_001: handleChatSubmit)\<close>

text \<open>
  \<^verbatim>\<open>
  const handleChatSubmit = async (e: React.FormEvent) => {
    e.preventDefault();
    if (!chatInput.trim()) return;
    const userMsg: ChatMessage = { role: 'user', text: chatInput };
    setChatHistory(prev => [...prev, userMsg]);
    setChatInput("");
    setChatLoading(true);
    try {
      const responseText = await getChatResponse(
        chatHistory, userMsg.text, result, targetLangName, nativeLangName);
      setChatHistory(prev => [...prev, { role: 'model', text: responseText }]);
    } catch (err) {
      console.error(err);
    } finally {
      setChatLoading(false);
    }
  };
  \<close>
  The submit button is disabled while \<^verbatim>\<open>chatLoading\<close> holds, so a send has ended
  when the next one starts: \<open>handleChatSubmit\<close> is the whole handler. The transcript
  the user sees is \<open>chatHistory\<close>; the two priming turns exist only in the request.
  \<open>send\<close> is the user typing a message and submitting it.
\<close>

record chat_state =
  chatHistory :: "ChatMessage list"
  chatInput :: string
  chatLoading :: bool

record chat_props =
  result :: DictionaryResult
  nativeLangName :: string
  targetLangName :: string

datatype send_status = Ignored | Failed | Succeeded

definition handleChatSubmit :: "env \<Rightarrow> chat_props \<Rightarrow> chat_state \<Rightarrow> chat_state \<times> send_status" where
  "handleChatSubmit e props cs =
     (if trim (chatInput cs) = [] then (cs, Ignored)
      else
        (let userMsg = \<lparr>role = User, text_str = chatInput cs\<rparr>;
             cs1 = cs\<lparr>chatHistory := chatHistory cs @ [userMsg], chatInput := [],
                     chatLoading := True\<rparr>
         in (case getChatResponse e (chatHistory cs) (text_str userMsg) (result props)
                    (targetLangName props) (nativeLangName props) of
               Inr responseText \<Rightarrow>
                 (cs1\<lparr>chatHistory := chatHistory cs1 @ [\<lparr>role = Model, text_str = responseText\<rparr>],
                      chatLoading := False\<rparr>, Succeeded)
             | Inl err \<Rightarrow> (cs1\<lparr>chatLoading := False\<rparr>, Failed))))"

definition send :: "chat_props \<Rightarrow> env \<times> string \<Rightarrow> chat_state \<Rightarrow> chat_state \<times> send_status" where
  "send props call cs = handleChatSubmit (fst call) props (cs\<lparr>chatInput := snd call\<rparr>)"

text \<open>A session: the sends in order, each with the environment it meets. It returns the
  final state and the numbers of sends that succeeded and that failed.\<close>

fun session :: "chat_props \<Rightarrow> (env \<times> string) list \<Rightarrow> chat_state \<Rightarrow> chat_state \<times> nat \<times> nat" where
  "session props [] cs = (cs, 0, 0)"
| "session props (call # calls) cs =
     (case send props call cs of
        (cs', status) \<Rightarrow>
          (case session props calls cs' of
             (cs'', ok, bad) \<Rightarrow>
               (cs'', (if status = Succeeded then Suc ok else ok),
                (if status = Failed then Suc bad else bad))))"

definition open_chat :: chat_state where
  "open_chat = \<lparr>chatHistory = [], chatInput = [], chatLoading = False\<rparr>"

section \<open>Story weaving (components/NotebookView.tsx: handleWeaveStory)\<close>

text \<open>
  \<^verbatim>\<open>
  const handleWeaveStory = async () => {
    if (items.length < 2) return;
    setLoadingStory(true);
    try {
      const generated = await weaveStory(items.slice(0, 10), nativeLangName);
      setStory(generated);
    } catch (e) {
      console.error(e);
    } finally {
      setLoadingStory(false);
    }
  };
  \<close>
  The result is the new state of the view and the prompts sent to the story collaborator.
\<close>

record notebook_view =
  story :: "string option"
  loadingStory :: bool

definition handleWeaveStory ::
  "env \<Rightarrow> SavedItem list \<Rightarrow> string \<Rightarrow> notebook_view \<Rightarrow> notebook_view \<times> string list" where
  "handleWeaveStory e items native v =
     (if length items < 2 then (v, [])
      else
        (case weaveStory e (take 10 items) native of
           (Inr generated, sent) \<Rightarrow> (v\<lparr>story := Some generated, loadingStory := False\<rparr>, sent)
         | (Inl err, sent) \<Rightarrow> (v\<lparr>loadingStory := False\<rparr>, sent)))"

section \<open>Sample data\<close>

text \<open>Concrete values for the runs below: a lookup result with a given headword and
  explanation, an environment whose definition collaborator echoes the query and whose
  illustration collaborator fails, one whose chat collaborator fails too, a notebook of
  twelve items, and a state of the App component with a given query.\<close>

definition sample_result :: "string \<Rightarrow> string \<Rightarrow> DictionaryResult" where
  "sample_result w ex =
     \<lparr>word = w, explanation = ex, examples = [], friendlyNote = ''a note'',
      conjugations = None, imageUrl = None, timestamp = 1700000000000,
      sourceLang = ''English'', targetLang = ''Spanish''\<rparr>"

definition sample_env :: env where
  "sample_env =
     \<lparr>getClient = None,
      generate_definition = (\<lambda>txt src tgt.
        Inr \<lparr>word = txt, explanation = ''explained in '' @ src, examples = [],
             friendlyNote = ''a note on '' @ tgt, conjugations = None\<rparr>),
      generate_image = (\<lambda>p. Inl (Thrown (Some ''image model unavailable''))),
      generate_story = (\<lambda>p. Inr (Some ''Once upon a time.'')),
      chat_sendMessage = (\<lambda>history newMessage. Inr ''Sure.''),
      Date_now = 1700000000000\<rparr>"

definition failing_env :: env where
  "failing_env =
     sample_env\<lparr>chat_sendMessage :=
       (\<lambda>history newMessage. Inl (Thrown (Some ''network error'')))\<rparr>"

definition sample_props :: chat_props where
  "sample_props =
     \<lparr>result = sample_result ''gato'' ''cat'', nativeLangName = ''English'',
      targetLangName = ''Spanish''\<rparr>"

definition sample_items :: "SavedItem list" where
  "sample_items =
     map (\<lambda>w. newItem (''id-'' @ w) (sample_result w ''a word''))
       [''uno'', ''dos'', ''tres'', ''cuatro'', ''cinco'', ''seis'', ''siete'', ''ocho'',
        ''nueve'', ''diez'', ''once'', ''doce'']"

definition closed_view :: notebook_view where
  "closed_view = \<lparr>story = None, loadingStory = False\<rparr>"

definition lang :: "string \<Rightarrow> string \<Rightarrow> Language" where
  "lang c n = \<lparr>code = c, name = n, flag = []\<rparr>"

definition sample_state :: "string \<Rightarrow> app_state" where
  "sample_state q =
     \<lparr>hasStarted = True, nativeLang = lang ''en'' ''English'',
      targetLang_ui = lang ''es'' ''Spanish'', mode = SEARCH, query = q, loading = False,
      currentResult = None, showSettings = False\<rparr>"

text \<open>Two runs in which a response arrives late. In \<open>stale_run\<close> a lookup of \<open>gato\<close> is
  begun, the query is changed to \<open>perro\<close> and a second lookup is begun (the handler
  does not read \<^verbatim>\<open>loading\<close>; only the submit button is disabled by it), and then
  the response of the first arrives. In \<open>stale_review_run\<close> a lookup of \<open>gato\<close> is begun,
  the user opens the saved item \<open>casa\<close> from the notebook, and then the response
  arrives.\<close>

definition stale_run :: "app_state \<times> outcome" where
  "stale_run =
     (case handleSearch_begin (sample_state ''gato'') of
        None \<Rightarrow> (sample_state ''gato'', EmptyQuery)
      | Some (s1, req1) \<Rightarrow>
          (case handleSearch_begin (handle_event s1 (SetQuery ''perro'')) of
             None \<Rightarrow> (s1, EmptyQuery)
           | Some (s2, req2) \<Rightarrow> handleSearch_resume App_with_settings sample_env req1 s2))"

definition stale_review_run :: "app_state \<times> outcome" where
  "stale_review_run =
     (case handleSearch_begin (sample_state ''gato'') of
        None \<Rightarrow> (sample_state ''gato'', EmptyQuery)
      | Some (s1, req1) \<Rightarrow>
          handleSearch_resume App_with_settings sample_env req1
            (handle_event s1 (ReviewItem (newItem ''id-1'' (sample_result ''casa'' ''house'')))))"

section \<open>Properties of the notebook store\<close>

lemma word_newItem: "word (newItem uuid item) = word item"
  by (simp add: newItem_def)

lemma saveItem_present:
  "list_ex (\<lambda>i. word i = word item) prev \<Longrightarrow> saveItem uuid item prev = prev"
  by (simp add: saveItem_def)

lemma saveItem_has_word: "list_ex (\<lambda>i. word i = word item) (saveItem uuid item prev)"
  by (simp add: saveItem_def word_newItem)

text \<open>The invariant holds of the empty notebook and is kept by both operations, so it
  holds of every notebook the program builds.\<close>

lemma notebook_inv_Nil: "notebook_inv []"
  by (simp add: notebook_inv_def)

lemma notebook_inv_saveItem: "notebook_inv prev \<Longrightarrow> notebook_inv (saveItem uuid item prev)"
  by (auto simp: notebook_inv_def saveItem_def word_newItem list_ex_iff)

lemma notebook_inv_deleteItem: "notebook_inv prev \<Longrightarrow> notebook_inv (deleteItem ident prev)"
  by (simp add: notebook_inv_def deleteItem_def distinct_map_filter)

lemma notebook_inv_ops: "notebook_inv (foldl apply_op [] ops)"
proof (induction ops rule: rev_induct)
  case Nil
  show ?case by (simp add: notebook_inv_Nil)
next
  case (snoc op ops)
  then show ?case
    by (cases op) (simp_all add: notebook_inv_saveItem notebook_inv_deleteItem)
qed

lemma one_entry_if_distinct:
  "distinct (map word xs) \<Longrightarrow> list_ex (\<lambda>i. word i = w) xs \<Longrightarrow>
   length (filter (\<lambda>i. word i = w) xs) = 1"
proof (induction xs)
  case Nil
  then show ?case by simp
next
  case (Cons x xs)
  show ?case
  proof (cases "word x = w")
    case True
    with Cons.prems have "w \<notin> word ` set xs" by auto
    then have "filter (\<lambda>i. word i = w) xs = []"
      by (auto simp: filter_empty_conv)
    with True show ?thesis by simp
  next
    case False
    with Cons show ?thesis by simp
  qed
qed

lemma one_entry_after_save:
  assumes "notebook_inv prev"
  shows "length (entries_for (word item) (saveItem uuid item prev)) = 1"
proof -
  have "distinct (map word (saveItem uuid item prev))"
    using notebook_inv_saveItem [OF assms] by (simp add: notebook_inv_def)
  then show ?thesis
    unfolding entries_for_def by (rule one_entry_if_distinct) (rule saveItem_has_word)
qed

text \<open>Headwords are compared as strings, so two spellings that differ in case are two
  entries.\<close>

lemma save_is_case_sensitive:
  "map word (saveItem ''id-2'' (sample_result ''Gato'' ''cat'')
     (saveItem ''id-1'' (sample_result ''gato'' ''cat'') [])) = [''Gato'', ''gato'']"
  by (simp add: saveItem_def newItem_def sample_result_def)

text \<open>
  Claim C2. \<^verbatim>\<open>save\<close> is idempotent on the headword. For a notebook with at most one
  entry per headword (the invariant of the data model) and two results \<open>r1\<close>, \<open>r2\<close>
  with the same \<open>word\<close>, compared as strings: after saving both, in either order, the
  notebook has exactly one entry for that word; the second save returns the notebook it
  was given; and a save of a word that is already present returns the notebook unchanged.
\<close>

theorem save_idempotent_on_word:
  assumes same: "word r1 = word r2" and inv: "notebook_inv prev"
  shows "length (entries_for (word r1) (saveItem u2 r2 (saveItem u1 r1 prev))) = 1 \<and>
         length (entries_for (word r1) (saveItem u1 r1 (saveItem u2 r2 prev))) = 1 \<and>
         saveItem u2 r2 (saveItem u1 r1 prev) = saveItem u1 r1 prev \<and>
         saveItem u1 r1 (saveItem u2 r2 prev) = saveItem u2 r2 prev \<and>
         (list_ex (\<lambda>i. word i = word r1) prev \<longrightarrow> saveItem u1 r1 prev = prev)"
proof -
  have second: "saveItem u2 r2 (saveItem u1 r1 prev) = saveItem u1 r1 prev"
    using saveItem_has_word [of r1 u1 prev] same by (simp add: saveItem_present)
  have second': "saveItem u1 r1 (saveItem u2 r2 prev) = saveItem u2 r2 prev"
    using saveItem_has_word [of r2 u2 prev] same by (simp add: saveItem_present)
  have "length (entries_for (word r1) (saveItem u1 r1 prev)) = 1"
    by (rule one_entry_after_save [OF inv])
  moreover have "length (entries_for (word r1) (saveItem u2 r2 prev)) = 1"
    using one_entry_after_save [OF inv, of r2 u2] same by simp
  ultimately show ?thesis
    using second second' by (simp add: saveItem_present)
qed

theorem save_idempotent_on_word_witness:
  "length (entries_for ''gato''
     (saveItem ''id-2'' (sample_result ''gato'' ''a cat'')
        (saveItem ''id-1'' (sample_result ''gato'' ''cat'') []))) = 1 \<and>
   saveItem ''id-2'' (sample_result ''gato'' ''a cat'')
        (saveItem ''id-1'' (sample_result ''gato'' ''cat'') [])
     = [newItem ''id-1'' (sample_result ''gato'' ''cat'')] \<and>
   saveItem ''id-1'' (sample_result ''gato'' ''cat'')
        (saveItem ''id-2'' (sample_result ''gato'' ''a cat'') [])
     = [newItem ''id-2'' (sample_result ''gato'' ''a cat'')]"
  using save_idempotent_on_word [of "sample_result ''gato'' ''cat''"
      "sample_result ''gato'' ''a cat''" "[]" "''id-2''" "''id-1''"]
  by (simp add: sample_result_def notebook_inv_def saveItem_def newItem_def entries_for_def)

text \<open>
  Claim C3, as stated, at a notebook that already holds the first headword: saving
  \<open>agua\<close>, \<open>boca\<close>, \<open>casa\<close> (three distinct words, in that order) into the notebook
  \<open>[gato, agua]\<close> leaves a notebook whose first three headwords are \<open>casa\<close>, \<open>boca\<close>,
  \<open>gato\<close>: the save of \<open>agua\<close> changed nothing.
\<close>

theorem saves_prepend_counterexample:
  "map word (take 3
     (saveItem ''id-c'' (sample_result ''casa'' ''house'')
       (saveItem ''id-b'' (sample_result ''boca'' ''mouth'')
         (saveItem ''id-a'' (sample_result ''agua'' ''water'')
            [newItem ''id-1'' (sample_result ''gato'' ''cat''),
             newItem ''id-0'' (sample_result ''agua'' ''water'')]))))
   = [''casa'', ''boca'', ''gato''] \<and>
   distinct [word (sample_result ''agua'' ''water''), word (sample_result ''boca'' ''mouth''),
             word (sample_result ''casa'' ''house'')]"
  by (simp add: saveItem_def sample_result_def newItem_def)

text \<open>
  Claim C3, amended. The notebook is ordered most-recent-first: for every notebook that
  holds none of their headwords, saving three results \<open>a\<close>, \<open>b\<close>, \<open>c\<close> with distinct
  words, in that order, puts the three new items in front of it in the order \<open>c\<close>,
  \<open>b\<close>, \<open>a\<close>. A save of a word that is not present puts the new item in front of the
  notebook it was given, which follows unchanged; a save of a word that is present
  returns the notebook as it was.
\<close>

theorem saves_prepend:
  assumes "distinct [word a, word b, word c]"
    and "\<forall>r \<in> {a, b, c}. \<not> list_ex (\<lambda>i. word i = word r) prev"
  shows "saveItem uc c (saveItem ub b (saveItem ua a prev))
           = newItem uc c # newItem ub b # newItem ua a # prev \<and>
         take 3 (saveItem uc c (saveItem ub b (saveItem ua a prev)))
           = [newItem uc c, newItem ub b, newItem ua a] \<and>
         (\<not> list_ex (\<lambda>i. word i = word r) xs \<longrightarrow> saveItem u r xs = newItem u r # xs) \<and>
         (list_ex (\<lambda>i. word i = word r) xs \<longrightarrow> saveItem u r xs = xs)"
  using assms by (auto simp: saveItem_def word_newItem)

theorem saves_prepend_witness:
  "saveItem ''id-c'' (sample_result ''casa'' ''house'')
       (saveItem ''id-b'' (sample_result ''boca'' ''mouth'')
         (saveItem ''id-a'' (sample_result ''agua'' ''water'')
            [newItem ''id-1'' (sample_result ''gato'' ''cat'')]))
   = [newItem ''id-c'' (sample_result ''casa'' ''house''),
      newItem ''id-b'' (sample_result ''boca'' ''mouth''),
      newItem ''id-a'' (sample_result ''agua'' ''water''),
      newItem ''id-1'' (sample_result ''gato'' ''cat'')]"
proof -
  let ?a = "sample_result ''agua'' ''water''"
  let ?b = "sample_result ''boca'' ''mouth''"
  let ?c = "sample_result ''casa'' ''house''"
  let ?prev = "[newItem ''id-1'' (sample_result ''gato'' ''cat'')]"
  have h1: "distinct [word ?a, word ?b, word ?c]"
    by (simp add: sample_result_def)
  have h2: "\<forall>r \<in> {?a, ?b, ?c}. \<not> list_ex (\<lambda>i. word i = word r) ?prev"
    by (simp add: sample_result_def newItem_def)
  show ?thesis
    using saves_prepend [OF h1 h2, THEN conjunct1] .
qed

text \<open>
  Claim C8. \<^verbatim>\<open>delete\<close> is idempotent and total: deleting the same identifier a second
  time returns the notebook the first deletion left; deleting an identifier that no item
  carries returns the notebook unchanged, and only then is the notebook unchanged; in
  every case the result is a notebook, that of the items with another identifier, and
  never an error.
\<close>

theorem delete_idempotent_total:
  "deleteItem ident (deleteItem ident prev) = deleteItem ident prev \<and>
   (ident \<notin> id_str ` set prev \<longrightarrow> deleteItem ident prev = prev) \<and>
   (deleteItem ident prev = prev \<longrightarrow> ident \<notin> id_str ` set prev) \<and>
   ident \<notin> id_str ` set (deleteItem ident prev) \<and>
   set (deleteItem ident prev) = {i \<in> set prev. id_str i \<noteq> ident}"
  by (auto simp: deleteItem_def filter_id_conv)

theorem delete_idempotent_total_witness:
  "deleteItem ''id-9'' [newItem ''id-1'' (sample_result ''gato'' ''cat'')]
     = [newItem ''id-1'' (sample_result ''gato'' ''cat'')] \<and>
   deleteItem ''id-1'' (deleteItem ''id-1'' [newItem ''id-1'' (sample_result ''gato'' ''cat'')])
     = deleteItem ''id-1'' [newItem ''id-1'' (sample_result ''gato'' ''cat'')] \<and>
   deleteItem ''id-1'' [newItem ''id-1'' (sample_result ''gato'' ''cat'')] = []"
  using delete_idempotent_total [of "''id-9''" "[newItem ''id-1'' (sample_result ''gato'' ''cat'')]"]
    delete_idempotent_total [of "''id-1''" "[newItem ''id-1'' (sample_result ''gato'' ''cat'')]"]
  by (simp add: newItem_def deleteItem_def)

text \<open>
  Claim C10. Saving is a copy plus an identifier. For a result whose word is not in the
  notebook, the saved item agrees with the result on every field of a DictionaryResult
  (cut back to those fields it is the result), its identifier is the one drawn for it,
  and it is put in front of the notebook, whose items follow unchanged. When the
  identifier drawn is fresh, the identifiers of the notebook stay pairwise distinct.
\<close>

theorem save_is_copy_plus_id:
  assumes "\<not> list_ex (\<lambda>i. word i = word item) prev"
  shows "saveItem uuid item prev = newItem uuid item # prev \<and>
         DictionaryResult.truncate (newItem uuid item) = item \<and>
         word (newItem uuid item) = word item \<and>
         explanation (newItem uuid item) = explanation item \<and>
         examples (newItem uuid item) = examples item \<and>
         friendlyNote (newItem uuid item) = friendlyNote item \<and>
         conjugations (newItem uuid item) = conjugations item \<and>
         imageUrl (newItem uuid item) = imageUrl item \<and>
         timestamp (newItem uuid item) = timestamp item \<and>
         sourceLang (newItem uuid item) = sourceLang item \<and>
         targetLang (newItem uuid item) = targetLang item \<and>
         id_str (newItem uuid item) = uuid \<and>
         (distinct (map id_str prev) \<and> uuid \<notin> id_str ` set prev \<longrightarrow>
            distinct (map id_str (saveItem uuid item prev)))"
  using assms by (simp add: saveItem_def newItem_def DictionaryResult.truncate_def)

theorem save_is_copy_plus_id_witness:
  "saveItem ''id-2'' (sample_result ''perro'' ''dog'')
       [newItem ''id-1'' (sample_result ''gato'' ''cat'')]
     = [newItem ''id-2'' (sample_result ''perro'' ''dog''),
        newItem ''id-1'' (sample_result ''gato'' ''cat'')] \<and>
   DictionaryResult.truncate (newItem ''id-2'' (sample_result ''perro'' ''dog''))
     = sample_result ''perro'' ''dog'' \<and>
   id_str (newItem ''id-2'' (sample_result ''perro'' ''dog'')) = ''id-2''"
  using save_is_copy_plus_id [of "sample_result ''perro'' ''dog''"
      "[newItem ''id-1'' (sample_result ''gato'' ''cat'')]" "''id-2''"]
  by (simp add: sample_result_def newItem_def)

section \<open>Properties of store construction\<close>

lemma parse_truncated_array: "JSON_parse ''[{'' = Inl SyntaxError"
  by code_simp

lemma parse_truncated_object: "JSON_parse ''{'' = Inl SyntaxError"
  by code_simp

lemma parse_empty_array: "JSON_parse ''[]'' = Inr (JArray [])"
  by code_simp

text \<open>
  Claim C5, as stated, at a notebook value and a settings value cut off in the middle of
  a write: both are non-empty and outside the JSON grammar, and each initializer throws
  the \<^verbatim>\<open>SyntaxError\<close> of \<^verbatim>\<open>JSON.parse\<close> instead of returning the empty collection
  or the default settings.
\<close>

theorem load_corrupt_counterexample:
  "savedItems_initializer (Map.empty(''lingopop_saved'' \<mapsto> ''[{'')) = Inl SyntaxError \<and>
   settings_initializer (Map.empty(''lingopop_settings'' \<mapsto> ''{'')) = Inl SyntaxError"
  by (simp add: savedItems_initializer_def settings_initializer_def getItem_def
      parse_truncated_array parse_truncated_object)

text \<open>
  Claim C5, amended. When the notebook key is absent or holds the empty string, the
  notebook loads as the empty collection, and when the settings key is absent or holds
  the empty string, the settings load as the documented defaults; neither throws. A
  non-empty stored string is handed to \<^verbatim>\<open>JSON.parse\<close> with no handler: the state is
  what the parse returns, and store construction throws exactly when the stored string
  is non-empty and not valid JSON.
\<close>

theorem load_persisted:
  "(getItem storage ''lingopop_saved'' \<in> {None, Some []} \<longrightarrow>
      savedItems_initializer storage = Inr (JArray [])) \<and>
   (getItem storage ''lingopop_settings'' \<in> {None, Some []} \<longrightarrow>
      settings_initializer storage = Inr DEFAULT_SETTINGS) \<and>
   (getItem storage ''lingopop_saved'' = Some saved \<and> saved \<noteq> [] \<longrightarrow>
      savedItems_initializer storage = JSON_parse saved) \<and>
   (getItem storage ''lingopop_settings'' = Some saved' \<and> saved' \<noteq> [] \<longrightarrow>
      settings_initializer storage = JSON_parse saved') \<and>
   (savedItems_initializer storage = Inl SyntaxError \<longleftrightarrow>
      (\<exists>txt. getItem storage ''lingopop_saved'' = Some txt \<and> txt \<noteq> [] \<and>
         JSON_parse txt = Inl SyntaxError)) \<and>
   (settings_initializer storage = Inl SyntaxError \<longleftrightarrow>
      (\<exists>txt. getItem storage ''lingopop_settings'' = Some txt \<and> txt \<noteq> [] \<and>
         JSON_parse txt = Inl SyntaxError))"
  by (auto simp: savedItems_initializer_def settings_initializer_def split: option.splits)

theorem load_persisted_witness:
  "savedItems_initializer Map.empty = Inr (JArray []) \<and>
   settings_initializer Map.empty = Inr DEFAULT_SETTINGS \<and>
   savedItems_initializer (Map.empty(''lingopop_saved'' \<mapsto> ''[]'')) = Inr (JArray []) \<and>
   savedItems_initializer (Map.empty(''lingopop_saved'' \<mapsto> ''[{'')) = Inl SyntaxError"
  using load_persisted [of Map.empty]
    load_persisted [of "Map.empty(''lingopop_saved'' \<mapsto> ''[]'')" "''[]''"]
    load_persisted [of "Map.empty(''lingopop_saved'' \<mapsto> ''[{'')" "''[{''"]
  by (simp add: getItem_def parse_empty_array parse_truncated_array)

section \<open>Properties of the lookup\<close>

text \<open>A query is blank, and the handler returns at once, exactly when every character of
  it is white space.\<close>

lemma trim_blank: "trim s = [] \<longleftrightarrow> list_all is_js_space s"
proof
  assume "trim s = []"
  then have all: "\<forall>c \<in> set (dropWhile is_js_space s). is_js_space c"
    by (simp add: trim_def dropWhile_eq_Nil_conv)
  have "dropWhile is_js_space s = []"
  proof (rule ccontr)
    assume ne: "dropWhile is_js_space s \<noteq> []"
    then have "\<not> is_js_space (hd (dropWhile is_js_space s))"
      by (rule hd_dropWhile)
    moreover from ne have "hd (dropWhile is_js_space s) \<in> set (dropWhile is_js_space s)"
      by simp
    ultimately show False using all by blast
  qed
  then show "list_all is_js_space s"
    by (simp add: dropWhile_eq_Nil_conv list_all_iff)
next
  assume "list_all is_js_space s"
  then have "dropWhile is_js_space s = []"
    by (simp add: dropWhile_eq_Nil_conv list_all_iff)
  then show "trim s = []"
    by (simp only: trim_def rev.simps dropWhile.simps)
qed

lemma search_try_langs:
  "search_try e req = Inr r \<Longrightarrow> sourceLang r = reqNative req \<and> targetLang r = reqTarget req"
  by (auto simp: search_try_def split: sum.splits prod.splits)

lemma search_catch_msg:
  "search_catch rv err s = (s', msg) \<Longrightarrow>
   currentResult s' = currentResult s \<and>
   (msg = ''Oops! The AI got a bit confused. Try again?'' \<or>
    msg = ''API Key Error: Please check your settings.'' \<and> rv = App_with_settings \<and>
      showSettings s' \<and> (\<exists>m. message err = Some m \<and> includes_str m ''API Key''))"
  by (cases rv) (auto simp: search_catch_def split: if_splits option.splits)

lemma handleSearch_resume_cases:
  "handleSearch_resume rv e req s = (s', out) \<Longrightarrow>
   (\<exists>r. out = Shown r \<and> search_try e req = Inr r \<and>
      s' = s\<lparr>currentResult := Some r, loading := False\<rparr>) \<or>
   (\<exists>msg err. out = Alerted msg \<and> search_try e req = Inl err \<and>
      currentResult s' = currentResult s \<and> loading s' = False \<and>
      (msg = ''Oops! The AI got a bit confused. Try again?'' \<or>
       msg = ''API Key Error: Please check your settings.'' \<and> rv = App_with_settings \<and>
         (\<exists>m. message err = Some m \<and> includes_str m ''API Key'')))"
proof (cases "search_try e req")
  case (Inr r)
  assume "handleSearch_resume rv e req s = (s', out)"
  with Inr show ?thesis by (auto simp: handleSearch_resume_def)
next
  case (Inl err)
  assume run: "handleSearch_resume rv e req s = (s', out)"
  obtain s1 msg where c: "search_catch rv err s = (s1, msg)"
    by (cases "search_catch rv err s")
  from run Inl c have "s' = s1\<lparr>loading := False\<rparr>" "out = Alerted msg"
    by (simp_all add: handleSearch_resume_def)
  with search_catch_msg [OF c] Inl show ?thesis by auto
qed

lemma sample_run:
  "handleSearch App_with_settings sample_env
     [SetNativeLang (lang ''fr'' ''French''), SetTargetLang (lang ''de'' ''German'')]
     (sample_state ''gato'') =
   ((sample_state ''gato'')
      \<lparr>nativeLang := lang ''fr'' ''French'', targetLang_ui := lang ''de'' ''German'',
       currentResult := Some
         \<lparr>word = ''gato'', explanation = ''explained in English'', examples = [],
          friendlyNote = ''a note on Spanish'', conjugations = None, imageUrl = None,
          timestamp = 1700000000000, sourceLang = ''English'', targetLang = ''Spanish''\<rparr>\<rparr>,
    Shown
         \<lparr>word = ''gato'', explanation = ''explained in English'', examples = [],
          friendlyNote = ''a note on Spanish'', conjugations = None, imageUrl = None,
          timestamp = 1700000000000, sourceLang = ''English'', targetLang = ''Spanish''\<rparr>)"
  by (simp add: handleSearch_def handleSearch_begin_def handleSearch_resume_def search_try_def
      Promise_all_def lookupWord_def generateConceptImage_def sample_env_def sample_state_def
      lang_def trim_def is_js_space_def)

text \<open>
  Claim C1. Every lookup ends in one of three ways. The query is blank and the handler
  returns at once, with the state as it was and no collaborator contacted (the local
  rejection of an empty query). Or a result is produced and becomes the current result:
  its \<open>sourceLang\<close> and \<open>targetLang\<close> are the names of the native and target language of
  the state in which the lookup was started, whatever events \<open>evs\<close> (changes of the
  language selection among them) were handled before it completed, and a later change
  of either selection leaves the result as it is. Or the lookup fails and the user is
  alerted with one of the two messages of the handler, the one about the key only in
  the revision with settings. A query that is not blank never ends the first way.
\<close>

theorem lookup_languages:
  assumes "handleSearch rv e evs s = (s', out)"
  shows "(trim (query s) = [] \<and> out = EmptyQuery \<and> s' = s) \<or>
         (trim (query s) \<noteq> [] \<and>
          (\<exists>r. out = Shown r \<and> currentResult s' = Some r \<and>
             sourceLang r = name (nativeLang s) \<and> targetLang r = name (targetLang_ui s) \<and>
             currentResult (handle_event s' (SetNativeLang l)) = Some r \<and>
             currentResult (handle_event s' (SetTargetLang l)) = Some r)) \<or>
         (trim (query s) \<noteq> [] \<and>
          (out = Alerted ''Oops! The AI got a bit confused. Try again?'' \<or>
           out = Alerted ''API Key Error: Please check your settings.'' \<and>
             rv = App_with_settings))"
proof (cases "trim (query s) = []")
  case True
  with assms show ?thesis
    by (simp add: handleSearch_def handleSearch_begin_def)
next
  case False
  let ?req = "\<lparr>reqQuery = query s, reqNative = name (nativeLang s),
               reqTarget = name (targetLang_ui s)\<rparr>"
  let ?s1 = "s\<lparr>loading := True, mode := SEARCH, currentResult := None\<rparr>"
  from False assms
  have run: "handleSearch_resume rv e ?req (foldl handle_event ?s1 evs) = (s', out)"
    by (simp add: handleSearch_def handleSearch_begin_def)
  from handleSearch_resume_cases [OF run] show ?thesis
  proof
    assume "\<exists>r. out = Shown r \<and> search_try e ?req = Inr r \<and>
      s' = (foldl handle_event ?s1 evs)\<lparr>currentResult := Some r, loading := False\<rparr>"
    then obtain r where r: "out = Shown r" "search_try e ?req = Inr r"
      "s' = (foldl handle_event ?s1 evs)\<lparr>currentResult := Some r, loading := False\<rparr>"
      by blast
    from search_try_langs [OF r(2)] r(1,3) False show ?thesis by simp
  next
    assume "\<exists>msg err. out = Alerted msg \<and> search_try e ?req = Inl err \<and>
      currentResult s' = currentResult (foldl handle_event ?s1 evs) \<and> loading s' = False \<and>
      (msg = ''Oops! The AI got a bit confused. Try again?'' \<or>
       msg = ''API Key Error: Please check your settings.'' \<and> rv = App_with_settings \<and>
         (\<exists>m. message err = Some m \<and> includes_str m ''API Key''))"
    with False show ?thesis by blast
  qed
qed

theorem lookup_languages_witness:
  "trim (query (sample_state ''gato'')) \<noteq> [] \<and>
   name (nativeLang (sample_state ''gato'')) = ''English'' \<and>
   name (targetLang_ui (sample_state ''gato'')) = ''Spanish'' \<and>
   name (nativeLang (fst (handleSearch App_with_settings sample_env
        [SetNativeLang (lang ''fr'' ''French''), SetTargetLang (lang ''de'' ''German'')]
        (sample_state ''gato'')))) = ''French'' \<and>
   name (targetLang_ui (fst (handleSearch App_with_settings sample_env
        [SetNativeLang (lang ''fr'' ''French''), SetTargetLang (lang ''de'' ''German'')]
        (sample_state ''gato'')))) = ''German'' \<and>
   map_option sourceLang (currentResult (fst (handleSearch App_with_settings sample_env
        [SetNativeLang (lang ''fr'' ''French''), SetTargetLang (lang ''de'' ''German'')]
        (sample_state ''gato'')))) = Some ''English'' \<and>
   map_option targetLang (currentResult (fst (handleSearch App_with_settings sample_env
        [SetNativeLang (lang ''fr'' ''French''), SetTargetLang (lang ''de'' ''German'')]
        (sample_state ''gato'')))) = Some ''Spanish''"
proof -
  let ?r = "\<lparr>word = ''gato'', explanation = ''explained in English'', examples = [],
          friendlyNote = ''a note on Spanish'', conjugations = None, imageUrl = None,
          timestamp = 1700000000000, sourceLang = ''English'', targetLang = ''Spanish''\<rparr>"
  have blank: "trim (query (sample_state ''gato'')) \<noteq> []"
    by (simp add: sample_state_def trim_def is_js_space_def)
  have names: "name (nativeLang (sample_state ''gato'')) = ''English''"
    "name (targetLang_ui (sample_state ''gato'')) = ''Spanish''"
    by (simp_all add: sample_state_def lang_def)
  have captured: "sourceLang ?r = name (nativeLang (sample_state ''gato'')) \<and>
      targetLang ?r = name (targetLang_ui (sample_state ''gato''))"
    using lookup_languages [OF sample_run] blank by simp
  have shown: "currentResult (fst (handleSearch App_with_settings sample_env
        [SetNativeLang (lang ''fr'' ''French''), SetTargetLang (lang ''de'' ''German'')]
        (sample_state ''gato''))) = Some ?r"
    "name (nativeLang (fst (handleSearch App_with_settings sample_env
        [SetNativeLang (lang ''fr'' ''French''), SetTargetLang (lang ''de'' ''German'')]
        (sample_state ''gato'')))) = ''French''"
    "name (targetLang_ui (fst (handleSearch App_with_settings sample_env
        [SetNativeLang (lang ''fr'' ''French''), SetTargetLang (lang ''de'' ''German'')]
        (sample_state ''gato'')))) = ''German''"
    unfolding sample_run by (simp_all add: lang_def)
  from blank names captured shown show ?thesis
    by simp
qed

text \<open>
  Claim C4. For a query that is not blank and on which the definition request succeeds
  (\<^verbatim>\<open>lookupWord\<close> returns its data), a failure of the illustration collaborator does
  not fail the lookup: the handler produces a result, which becomes the current result,
  with the fields of the definition data and with \<open>imageUrl\<close> absent.
\<close>

theorem illustration_failure_degrades:
  assumes "trim (query s) \<noteq> []"
    and "lookupWord e (query s) (name (nativeLang s)) (name (targetLang_ui s)) = Inr textData"
    and "generate_image e (image_prompt (query s)) = Inl err"
  shows "\<exists>s' r. handleSearch rv e evs s = (s', Shown r) \<and> currentResult s' = Some r \<and>
           imageUrl r = None \<and> TextData.truncate r = textData"
proof -
  from assms(2) have client: "getClient e = None"
    by (auto simp: lookupWord_def split: option.splits)
  with assms(3) have "generateConceptImage e (query s) = Inr None"
    by (simp add: generateConceptImage_def)
  with assms(1,2) show ?thesis
    by (simp add: handleSearch_def handleSearch_begin_def handleSearch_resume_def search_try_def
        Promise_all_def TextData.truncate_def)
qed

theorem illustration_failure_degrades_witness:
  "\<exists>s' r. handleSearch App_tsx sample_env [] (sample_state ''gato'') = (s', Shown r) \<and>
      currentResult s' = Some r \<and> imageUrl r = None \<and>
      TextData.truncate r =
        \<lparr>word = ''gato'', explanation = ''explained in English'', examples = [],
         friendlyNote = ''a note on Spanish'', conjugations = None\<rparr>"
proof -
  have h1: "trim (query (sample_state ''gato'')) \<noteq> []"
    by (simp add: sample_state_def trim_def is_js_space_def)
  have h2: "lookupWord sample_env (query (sample_state ''gato''))
       (name (nativeLang (sample_state ''gato''))) (name (targetLang_ui (sample_state ''gato''))) =
     Inr \<lparr>word = ''gato'', explanation = ''explained in English'', examples = [],
         friendlyNote = ''a note on Spanish'', conjugations = None\<rparr>"
    by (simp add: lookupWord_def sample_env_def sample_state_def lang_def)
  have h3: "generate_image sample_env (image_prompt (query (sample_state ''gato''))) =
     Inl (Thrown (Some ''image model unavailable''))"
    by (simp add: sample_env_def)
  show ?thesis
    by (rule illustration_failure_degrades [OF h1 h2 h3])
qed

text \<open>
  Claim C9, as stated, at the two late arrivals. In the first run the response to the
  lookup of \<open>gato\<close> arrives after the user has started the lookup of \<open>perro\<close>: it is
  not discarded, it becomes the current result under the query \<open>perro\<close> and clears the
  loading flag of the request still in flight. In the second run the user has opened the
  saved item \<open>casa\<close> meanwhile, and the arriving response replaces it.
\<close>

theorem stale_response_counterexample:
  "query (fst stale_run) = ''perro'' \<and>
   map_option word (currentResult (fst stale_run)) = Some ''gato'' \<and>
   loading (fst stale_run) = False \<and>
   currentResult (handle_event (sample_state ''gato'')
        (ReviewItem (newItem ''id-1'' (sample_result ''casa'' ''house''))))
     = Some (sample_result ''casa'' ''house'') \<and>
   map_option word (currentResult (fst stale_review_run)) = Some ''gato''"
  by (simp add: stale_run_def stale_review_run_def handleSearch_begin_def handleSearch_resume_def
      search_try_def Promise_all_def lookupWord_def generateConceptImage_def sample_env_def
      sample_state_def lang_def trim_def is_js_space_def reviewItem_def newItem_def
      sample_result_def DictionaryResult.truncate_def)

text \<open>
  Claim C9, amended. A lookup response is applied when it arrives, whatever the state is
  then: the request carries no identity and the state holds none to compare with. When
  the two requests of a lookup have succeeded, resuming the handler sets the current
  result to the result of that lookup and clears the loading flag, in every state and
  after every event handled meanwhile; of several responses the one that arrives last
  is the current result.
\<close>

theorem response_applied_unconditionally:
  assumes "search_try e req = Inr r"
  shows "handleSearch_resume rv e req s =
           (s\<lparr>currentResult := Some r, loading := False\<rparr>, Shown r) \<and>
         currentResult (fst (handleSearch_resume rv e req (foldl handle_event s evs))) = Some r \<and>
         (search_try e' req' = Inr r' \<longrightarrow>
            currentResult (fst (handleSearch_resume rv e req
              (fst (handleSearch_resume rv e' req' s)))) = Some r)"
  using assms by (simp add: handleSearch_resume_def)

theorem response_applied_unconditionally_witness:
  "map_option word (currentResult (fst (handleSearch_resume App_tsx sample_env
       \<lparr>reqQuery = ''gato'', reqNative = ''English'', reqTarget = ''Spanish''\<rparr>
       (handle_event (sample_state ''perro'')
          (ReviewItem (newItem ''id-1'' (sample_result ''casa'' ''house''))))))) = Some ''gato''"
proof -
  have h: "search_try sample_env \<lparr>reqQuery = ''gato'', reqNative = ''English'', reqTarget = ''Spanish''\<rparr> =
     Inr \<lparr>word = ''gato'', explanation = ''explained in English'', examples = [],
          friendlyNote = ''a note on Spanish'', conjugations = None, imageUrl = None,
          timestamp = 1700000000000, sourceLang = ''English'', targetLang = ''Spanish''\<rparr>"
    by (simp add: search_try_def Promise_all_def lookupWord_def generateConceptImage_def
        sample_env_def)
  show ?thesis
    using response_applied_unconditionally [OF h, THEN conjunct1, of App_tsx]
    by simp
qed

section \<open>Properties of the chat\<close>

lemma send_cases:
  "send props call cs = (cs', status) \<Longrightarrow>
   (status = Ignored \<longrightarrow> trim (snd call) = [] \<and> chatHistory cs' = chatHistory cs) \<and>
   (status = Failed \<longrightarrow> trim (snd call) \<noteq> [] \<and>
      chatHistory cs' = chatHistory cs @ [\<lparr>role = User, text_str = snd call\<rparr>]) \<and>
   (status = Succeeded \<longrightarrow> trim (snd call) \<noteq> [] \<and>
      (\<exists>reply. chatHistory cs' =
         chatHistory cs @ [\<lparr>role = User, text_str = snd call\<rparr>,
                           \<lparr>role = Model, text_str = reply\<rparr>]))"
  by (auto simp: send_def handleChatSubmit_def Let_def split: if_splits sum.splits)

lemma send_length:
  "send props call cs = (cs', status) \<Longrightarrow>
   length (chatHistory cs') =
     length (chatHistory cs) +
       (if status = Succeeded then 2 else if status = Failed then 1 else 0)"
  using send_cases [of props call cs cs' status] by (cases status) auto

lemma session_length:
  "session props calls cs = (cs', ok, bad) \<Longrightarrow>
   length (chatHistory cs') = length (chatHistory cs) + 2 * ok + bad"
proof (induction calls arbitrary: cs cs' ok bad)
  case Nil
  then show ?case by simp
next
  case (Cons call calls)
  obtain cs1 status where s1: "send props call cs = (cs1, status)"
    by (cases "send props call cs")
  obtain cs2 ok2 bad2 where s2: "session props calls cs1 = (cs2, ok2, bad2)"
    by (cases "session props calls cs1")
  from Cons.prems s1 s2 have eqs: "cs' = cs2"
    "ok = (if status = Succeeded then Suc ok2 else ok2)"
    "bad = (if status = Failed then Suc bad2 else bad2)"
    by simp_all
  have "length (chatHistory cs2) = length (chatHistory cs1) + 2 * ok2 + bad2"
    by (rule Cons.IH [OF s2])
  with send_length [OF s1] eqs show ?case
    by (cases status) simp_all
qed

lemma retry_run:
  "session sample_props [(failing_env, ''plural?''), (sample_env, ''plural?'')] open_chat =
     (\<lparr>chatHistory = [\<lparr>role = User, text_str = ''plural?''\<rparr>,
                      \<lparr>role = User, text_str = ''plural?''\<rparr>,
                      \<lparr>role = Model, text_str = ''Sure.''\<rparr>],
       chatInput = [], chatLoading = False\<rparr>, 1, 1)"
  by (simp add: send_def handleChatSubmit_def getChatResponse_def open_chat_def sample_env_def
      failing_env_def sample_props_def trim_def is_js_space_def Let_def)

text \<open>
  Claim C6, as stated, at a session of two sends of the same message, the first failed
  and the second, the retry, successful: one send has succeeded, and the transcript is
  the user message twice and the reply, of length three, not two; its length is still
  odd after the successful retry.
\<close>

theorem transcript_length_counterexample:
  "snd (session sample_props [(failing_env, ''plural?''), (sample_env, ''plural?'')] open_chat)
     = (1, 1) \<and>
   map role (chatHistory (fst (session sample_props
       [(failing_env, ''plural?''), (sample_env, ''plural?'')] open_chat)))
     = [User, User, Model] \<and>
   length (chatHistory (fst (session sample_props
       [(failing_env, ''plural?''), (sample_env, ''plural?'')] open_chat))) \<noteq> 2 * 1"
  unfolding retry_run by simp

text \<open>
  Claim C6, amended. For every chat session, after \<open>ok\<close> successful and \<open>bad\<close> failed
  sends (blank messages are ignored) the transcript the user sees has length exactly
  \<open>2 * ok + bad\<close>: exactly \<open>2 * ok\<close> when no send has failed, and odd exactly when the
  number of failed sends is odd. A failed send leaves the transcript with the user
  message appended and no reply; a successful send, a retry included, appends the user
  message and then the reply.
\<close>

theorem transcript_length:
  assumes "session props calls open_chat = (cs', ok, bad)"
  shows "length (chatHistory cs') = 2 * ok + bad \<and>
         (bad = 0 \<longrightarrow> length (chatHistory cs') = 2 * ok) \<and>
         (odd (length (chatHistory cs')) \<longleftrightarrow> odd bad) \<and>
         (send props call cs = (cs1, Failed) \<longrightarrow>
            chatHistory cs1 = chatHistory cs @ [\<lparr>role = User, text_str = snd call\<rparr>]) \<and>
         (send props call cs = (cs1, Succeeded) \<longrightarrow>
            (\<exists>reply. chatHistory cs1 =
               chatHistory cs @ [\<lparr>role = User, text_str = snd call\<rparr>,
                                 \<lparr>role = Model, text_str = reply\<rparr>]))"
proof -
  have len: "length (chatHistory cs') = 2 * ok + bad"
    using session_length [OF assms] by (simp add: open_chat_def)
  have "(send props call cs = (cs1, Failed) \<longrightarrow>
            chatHistory cs1 = chatHistory cs @ [\<lparr>role = User, text_str = snd call\<rparr>])"
    using send_cases [of props call cs cs1 Failed] by simp
  moreover have "(send props call cs = (cs1, Succeeded) \<longrightarrow>
            (\<exists>reply. chatHistory cs1 =
               chatHistory cs @ [\<lparr>role = User, text_str = snd call\<rparr>,
                                 \<lparr>role = Model, text_str = reply\<rparr>]))"
    using send_cases [of props call cs cs1 Succeeded] by simp
  ultimately show ?thesis
    using len by simp
qed

theorem transcript_length_witness:
  "length (chatHistory \<lparr>chatHistory = [\<lparr>role = User, text_str = ''plural?''\<rparr>,
                      \<lparr>role = User, text_str = ''plural?''\<rparr>,
                      \<lparr>role = Model, text_str = ''Sure.''\<rparr>],
       chatInput = [], chatLoading = False\<rparr>) = 2 * 1 + 1"
  using transcript_length [OF retry_run] by simp

section \<open>Properties of story weaving\<close>

lemma weaveStory_sent:
  "snd (weaveStory e items native) =
     (if getClient e = None then [story_prompt (map word items) native] else [])"
  by (simp add: weaveStory_def Let_def split: option.splits sum.splits)

text \<open>
  Claim C7. The story collaborator is sent at most one prompt, and the prompt is built
  from the headwords of the first ten items of the sequence and from nothing else of it:
  two sequences with the same first ten items are handled alike, so of twelve items only
  the first ten headwords are in the request. With fewer than two items nothing is sent
  and the view is unchanged.
\<close>

theorem weave_story_first_ten:
  "snd (handleWeaveStory e items native v) =
     (if 2 \<le> length items \<and> getClient e = None
      then [story_prompt (map word (take 10 items)) native] else []) \<and>
   length (take 10 items) \<le> 10 \<and>
   (length items < 2 \<longrightarrow> handleWeaveStory e items native v = (v, [])) \<and>
   (2 \<le> length items \<and> 2 \<le> length items' \<and> take 10 items = take 10 items' \<longrightarrow>
      handleWeaveStory e items native v = handleWeaveStory e items' native v)"
proof -
  have "snd (handleWeaveStory e items native v) =
     (if 2 \<le> length items \<and> getClient e = None
      then [story_prompt (map word (take 10 items)) native] else [])"
    using weaveStory_sent [of e "take 10 items" native]
    by (auto simp: handleWeaveStory_def split: prod.splits sum.splits)
  then show ?thesis
    by (simp add: handleWeaveStory_def)
qed

theorem weave_story_first_ten_witness:
  "length sample_items = 12 \<and>
   snd (handleWeaveStory sample_env sample_items ''English'' closed_view) =
     [story_prompt [''uno'', ''dos'', ''tres'', ''cuatro'', ''cinco'', ''seis'', ''siete'',
        ''ocho'', ''nueve'', ''diez''] ''English''] \<and>
   handleWeaveStory sample_env (take 1 sample_items) ''English'' closed_view = (closed_view, [])"
  using weave_story_first_ten [of sample_env sample_items "''English''" closed_view]
    weave_story_first_ten [of sample_env "take 1 sample_items" "''English''" closed_view]
  by (simp add: sample_items_def sample_env_def newItem_def sample_result_def)

end
